theory Spec2Isabelle
  imports Main "HOL-Library.Word"
begin

unbundle bit_operations_syntax

section \<open>The option set of \<^verbatim>\<open>include/swift/Basic/OptionSet.h\<close>\<close>

text \<open>
  The class template \<^verbatim>\<open>OptionSet<Flags, StorageType>\<close> has one data member,
  \<^verbatim>\<open>StorageType Storage\<close>, an unsigned integral value. The storage type is the type
  parameter \<open>'a\<close>: a value of \<open>'a word\<close> is an unsigned integer of \<open>LENGTH('a)\<close> bits,
  on which \<open>AND\<close>, \<open>OR\<close> and \<open>NOT\<close> are the operators \<^verbatim>\<open>&\<close>, \<^verbatim>\<open>|\<close> and \<^verbatim>\<open>~\<close> of C++.
\<close>

record (overloaded) ('a::len) OptionSet =
  Storage :: "'a word"

text \<open>
  The enumeration \<^verbatim>\<open>Flags\<close> is a template argument. It is a type \<open>'e\<close> together with
  the integer value of each enumerator; \<^verbatim>\<open>static_cast<StorageType>(flag)\<close> reduces
  that value modulo \<open>2 ^ LENGTH('a)\<close>, which is \<open>word_of_int\<close>.
\<close>

type_synonym 'e Flags = "'e \<Rightarrow> int"

text \<open>\<^verbatim>\<open>llvm::NoneType\<close>, the type of \<^verbatim>\<open>llvm::None\<close>.\<close>

datatype NoneType = NoneValue

subsection \<open>Constructors\<close>

text \<open>\<^verbatim>\<open>OptionSet() : Storage() { }\<close>\<close>

definition OptionSet_empty :: "'a::len OptionSet" where
  "OptionSet_empty = \<lparr>Storage = 0\<rparr>"

text \<open>\<^verbatim>\<open>OptionSet(llvm::NoneType) : Storage() { }\<close>\<close>

definition OptionSet_None :: "NoneType \<Rightarrow> 'a::len OptionSet" where
  "OptionSet_None n = \<lparr>Storage = 0\<rparr>"

text \<open>\<^verbatim>\<open>OptionSet(Flags flag) : Storage(static_cast<StorageType>(flag)) { }\<close>\<close>

definition OptionSet_Flags :: "'e Flags \<Rightarrow> 'e \<Rightarrow> 'a::len OptionSet" where
  "OptionSet_Flags underlying flag = \<lparr>Storage = word_of_int (underlying flag)\<rparr>"

text \<open>\<^verbatim>\<open>explicit OptionSet(StorageType storage) : Storage(storage) { }\<close>\<close>

definition OptionSet_Storage :: "'a::len word \<Rightarrow> 'a OptionSet" where
  "OptionSet_Storage storage = \<lparr>Storage = storage\<rparr>"

subsection \<open>Conversions\<close>

text \<open>\<^verbatim>\<open>explicit operator bool() const { return Storage != 0; }\<close>\<close>

definition operator_bool :: "'a::len OptionSet \<Rightarrow> bool" where
  "operator_bool this = (Storage this \<noteq> 0)"

text \<open>\<^verbatim>\<open>explicit operator StorageType() const { return Storage; }\<close>\<close>

definition operator_StorageType :: "'a::len OptionSet \<Rightarrow> 'a word" where
  "operator_StorageType this = Storage this"

subsection \<open>The set operators\<close>

text \<open>\<^verbatim>\<open>operator|\<close>: \<^verbatim>\<open>return OptionSet(lhs.Storage | rhs.Storage);\<close>\<close>

definition operator_or :: "'a::len OptionSet \<Rightarrow> 'a OptionSet \<Rightarrow> 'a OptionSet" where
  "operator_or lhs rhs = OptionSet_Storage (Storage lhs OR Storage rhs)"

text \<open>\<^verbatim>\<open>operator&\<close>: \<^verbatim>\<open>return OptionSet(lhs.Storage & rhs.Storage);\<close>\<close>

definition operator_and :: "'a::len OptionSet \<Rightarrow> 'a OptionSet \<Rightarrow> 'a OptionSet" where
  "operator_and lhs rhs = OptionSet_Storage (Storage lhs AND Storage rhs)"

text \<open>\<^verbatim>\<open>operator~\<close>: \<^verbatim>\<open>return OptionSet(~set.Storage);\<close>\<close>

definition operator_not :: "'a::len OptionSet \<Rightarrow> 'a OptionSet" where
  "operator_not set' = OptionSet_Storage (NOT (Storage set'))"

text \<open>\<^verbatim>\<open>operator-\<close>: \<^verbatim>\<open>return OptionSet(lhs.Storage & ~rhs.Storage);\<close>\<close>

definition operator_minus :: "'a::len OptionSet \<Rightarrow> 'a OptionSet \<Rightarrow> 'a OptionSet" where
  "operator_minus lhs rhs = OptionSet_Storage (Storage lhs AND NOT (Storage rhs))"

text \<open>
  The compound assignments write the field of \<^verbatim>\<open>lhs\<close> and return the reference
  \<^verbatim>\<open>lhs\<close>: here the updated object is the result.
\<close>

definition operator_or_assign :: "'a::len OptionSet \<Rightarrow> 'a OptionSet \<Rightarrow> 'a OptionSet" where
  "operator_or_assign lhs rhs = lhs\<lparr>Storage := Storage lhs OR Storage rhs\<rparr>"

definition operator_and_assign :: "'a::len OptionSet \<Rightarrow> 'a OptionSet \<Rightarrow> 'a OptionSet" where
  "operator_and_assign lhs rhs = lhs\<lparr>Storage := Storage lhs AND Storage rhs\<rparr>"

definition operator_minus_assign :: "'a::len OptionSet \<Rightarrow> 'a OptionSet \<Rightarrow> 'a OptionSet" where
  "operator_minus_assign lhs rhs = lhs\<lparr>Storage := Storage lhs AND NOT (Storage rhs)\<rparr>"

subsection \<open>Containment\<close>

text \<open>
  \<^verbatim>\<open>bool contains(OptionSet set) const { return static_cast<bool>(*this & set); }\<close>
\<close>

definition contains :: "'a::len OptionSet \<Rightarrow> 'a OptionSet \<Rightarrow> bool" where
  "contains this set' = operator_bool (operator_and this set')"

subsection \<open>The enumeration of the scenario\<close>

text \<open>
  The enumeration \<^verbatim>\<open>{Read = 1, Write = 2, Execute = 4}\<close> of the specification's
  scenario. An unscoped enumeration with these values has the underlying type
  \<^verbatim>\<open>int\<close>, so the default storage type is \<^verbatim>\<open>unsigned int\<close>, of 32 bits.
\<close>

datatype Perm = Read | Write | Execute

fun Perm_value :: "Perm Flags" where
  "Perm_value Read = 1"
| "Perm_value Write = 2"
| "Perm_value Execute = 4"

definition fromFlag :: "Perm \<Rightarrow> 32 OptionSet" where
  "fromFlag flag = OptionSet_Flags Perm_value flag"

section \<open>Basic facts\<close>

lemma Storage_OptionSet_Storage: "Storage (OptionSet_Storage w) = w"
  by (simp add: OptionSet_Storage_def)

lemma Storage_OptionSet_empty: "Storage (OptionSet_empty :: 'a::len OptionSet) = 0"
  by (simp add: OptionSet_empty_def)

lemma OptionSet_eq_iff: "x = y \<longleftrightarrow> Storage x = Storage y"
  for x y :: "'a::len OptionSet"
  by (cases x, cases y) simp

lemma contains_Storage: "contains x y \<longleftrightarrow> Storage x AND Storage y \<noteq> 0"
  by (simp add: contains_def operator_bool_def operator_and_def OptionSet_Storage_def)

lemma Storage_fromFlag:
  "Storage (fromFlag Read) = 1"
  "Storage (fromFlag Write) = 2"
  "Storage (fromFlag Execute) = 4"
  by (simp_all add: fromFlag_def OptionSet_Flags_def)

section \<open>Containment\<close>

text \<open>
  C1. The claim: \<open>x.contains(y)\<close> is true exactly when every bit of \<open>y\<close> is a bit of
  \<open>x\<close>, that is when \<open>(x & y) == y\<close>. The code tests \<open>(x & y) != 0\<close> instead. With
  \<open>x\<close> of raw value 1 and \<open>y\<close> of raw value 3, \<open>contains\<close> returns true although bit 1
  of \<open>y\<close> is not in \<open>x\<close>; with \<open>y\<close> empty it returns false although \<open>(x & y) == y\<close>.
\<close>

theorem contains_shared_bit_not_all_bits:
  "contains (OptionSet_Storage (1 :: 8 word)) (OptionSet_Storage 3)
   \<and> operator_and (OptionSet_Storage (1 :: 8 word)) (OptionSet_Storage 3) \<noteq> OptionSet_Storage 3
   \<and> \<not> contains (OptionSet_Storage (1 :: 8 word)) OptionSet_empty
   \<and> operator_and (OptionSet_Storage (1 :: 8 word)) OptionSet_empty = OptionSet_empty"
  by (simp add: contains_Storage operator_and_def OptionSet_Storage_def OptionSet_empty_def)

text \<open>
  C2. The claim: \<open>x.contains(x)\<close> is true for every \<open>x\<close>, the empty set included. In the
  code \<open>x.contains(x)\<close> is the test that \<open>x\<close> is not empty, so the empty set does not
  contain itself.
\<close>

theorem contains_self_is_operator_bool:
  "contains x x = operator_bool x
   \<and> \<not> contains (OptionSet_empty :: 'a::len OptionSet) OptionSet_empty"
  by (simp add: contains_Storage operator_bool_def OptionSet_empty_def)

text \<open>
  C10. As implemented, \<open>contains\<close> is symmetric: \<open>x.contains(y)\<close> and \<open>y.contains(x)\<close>
  return the same boolean.
\<close>

theorem contains_symmetric: "contains x y = contains y x"
  by (simp add: contains_Storage and.commute)

section \<open>The scenario\<close>

text \<open>
  C3. With the enumeration \<open>{Read = 1, Write = 2, Execute = 4}\<close>: the union of
  \<open>fromFlag(Read)\<close> and \<open>fromFlag(Write)\<close> has raw value 3, contains \<open>fromFlag(Read)\<close>,
  does not contain \<open>fromFlag(Execute)\<close>, and its difference with \<open>fromFlag(Write)\<close> has
  raw value 1 and equals \<open>fromFlag(Read)\<close>.
\<close>

theorem Perm_scenario:
  "operator_StorageType (operator_or (fromFlag Read) (fromFlag Write)) = 3
   \<and> contains (operator_or (fromFlag Read) (fromFlag Write)) (fromFlag Read)
   \<and> \<not> contains (operator_or (fromFlag Read) (fromFlag Write)) (fromFlag Execute)
   \<and> operator_StorageType
        (operator_minus (operator_or (fromFlag Read) (fromFlag Write)) (fromFlag Write)) = 1
   \<and> operator_minus (operator_or (fromFlag Read) (fromFlag Write)) (fromFlag Write)
        = fromFlag Read"
  by (simp add: contains_Storage operator_StorageType_def operator_or_def operator_minus_def
      Storage_OptionSet_Storage Storage_fromFlag OptionSet_eq_iff)

section \<open>The boolean conversion\<close>

text \<open>
  C4, as stated: the boolean conversion returns true if and only if the storage equals 0.
  It fails on the empty set, whose storage is 0 and whose conversion is false.
\<close>

theorem operator_bool_empty_counterexample:
  "\<not> (operator_bool (OptionSet_empty :: 8 OptionSet)
        \<longleftrightarrow> Storage (OptionSet_empty :: 8 OptionSet) = 0)"
  by (simp add: operator_bool_def OptionSet_empty_def)

text \<open>
  C4, amended: the boolean conversion is the test that the set is not empty. It returns
  false if and only if the storage equals 0; it is false on the empty set and true on
  \<open>fromFlag(Read)\<close> for the nonzero enumerator \<open>Read\<close>.
\<close>

theorem operator_bool_is_nonempty:
  "(\<not> operator_bool x) = (operator_StorageType x = 0)
   \<and> operator_bool (OptionSet_empty :: 'a::len OptionSet) = False
   \<and> operator_bool (fromFlag Read) = True"
  for x :: "'a::len OptionSet"
  by (simp add: operator_bool_def operator_StorageType_def OptionSet_empty_def
      Storage_fromFlag)

section \<open>The algebra of the set operators\<close>

text \<open>
  C5. Union is commutative and associative, and the empty set is its identity.
\<close>

theorem operator_or_comm_assoc_identity:
  "operator_or x y = operator_or y x
   \<and> operator_or (operator_or x y) z = operator_or x (operator_or y z)
   \<and> operator_or OptionSet_empty x = x"
  by (simp add: operator_or_def Storage_OptionSet_Storage Storage_OptionSet_empty
      OptionSet_eq_iff ac_simps)

text \<open>
  C6. Intersection is commutative and associative, and the empty set is its absorbing
  element.
\<close>

theorem operator_and_comm_assoc_absorbing:
  "operator_and x y = operator_and y x
   \<and> operator_and (operator_and x y) z = operator_and x (operator_and y z)
   \<and> operator_and OptionSet_empty x = OptionSet_empty"
  by (simp add: operator_and_def Storage_OptionSet_Storage Storage_OptionSet_empty
      OptionSet_eq_iff ac_simps)

text \<open>
  C7. The difference is \<open>a.storage & ~b.storage\<close>, and the difference of a set with
  itself is the empty set.
\<close>

theorem operator_minus_self:
  "operator_StorageType (operator_minus a b)
     = operator_StorageType a AND NOT (operator_StorageType b)
   \<and> operator_minus x x = OptionSet_empty"
  by (simp add: operator_minus_def operator_StorageType_def Storage_OptionSet_Storage
      Storage_OptionSet_empty OptionSet_eq_iff)

text \<open>
  C8. The union of a set with its complement is the pattern with every bit of the
  storage type set, whose unsigned value is \<open>2 ^ LENGTH('a) - 1\<close>; the complement of the
  empty set over an 8-bit storage type has raw value 255.
\<close>

theorem operator_or_operator_not_all_ones:
  "operator_or x (operator_not x) = OptionSet_Storage (- 1)
   \<and> unat (operator_StorageType (operator_or x (operator_not x))) = 2 ^ LENGTH('a) - 1
   \<and> operator_StorageType (operator_not (OptionSet_empty :: 8 OptionSet)) = 255"
  for x :: "'a::len OptionSet"
  by (simp add: operator_or_def operator_not_def operator_StorageType_def
      Storage_OptionSet_Storage Storage_OptionSet_empty unsigned_minus_1_eq_mask mask_eq_exp_minus_1)

section \<open>Raw storage\<close>

text \<open>
  C9. The constructor from raw storage keeps the bits as given and the conversion to the
  storage type returns them as stored: converting a set built from \<open>b\<close> gives \<open>b\<close>, and
  rebuilding a set from its raw value gives a set with the same raw value.
\<close>

theorem raw_round_trip:
  "operator_StorageType (OptionSet_Storage b) = b
   \<and> operator_StorageType (OptionSet_Storage (operator_StorageType x)) = operator_StorageType x
   \<and> OptionSet_Storage (operator_StorageType x) = x"
  by (simp add: operator_StorageType_def Storage_OptionSet_Storage OptionSet_eq_iff)

end
